theory Spec2Isabelle
  imports Complex_Main "HOL-Library.Word"
begin

section \<open>Data model\<close>

text \<open>
  The repository holds two scripts with one session class each: \<open>DemoRunner\<close>
  (dg_cartesia_agent_e2e.py) and \<open>ScenarioRunner\<close> (test_multilingual_cartesia.py).
  Both are embedded here. Definitions prefixed \<open>demo_\<close> follow the first class, definitions
  prefixed \<open>scen_\<close> the second; an unprefixed definition is code that the two classes share
  word for word.
\<close>

type_synonym byte = "8 word"
type_synonym bytes = "byte list"

text \<open>
  What \<open>json.loads\<close> returns. Numbers are kept as rationals; the handlers compare decoded
  values with string constants only, so no behaviour depends on a number's value. An object is
  the association list of its dictionary, read with \<open>dict_get\<close>.
\<close>

datatype json =
    JNull
  | JBool bool
  | JNumber rat
  | JStr string
  | JArr "json list"
  | JObj "(string \<times> json) list"

text \<open>
  The \<open>message\<close> argument of \<open>_on_message\<close>: a \<open>bytes\<close> object, or a \<open>str\<close>. The handler
  uses a \<open>str\<close> only through \<open>json.loads\<close>, so a textual frame is represented by what
  \<open>json.loads\<close> does on it: \<open>None\<close> when it raises, the decoded value otherwise.
\<close>

datatype message = Bytes bytes | Str "json option"

datatype exn = AttributeError | TypeError | ConnectionClosed | OSError

text \<open>
  A Python method either returns or raises; in both cases the mutations it made to the object
  stay, so both outcomes carry the state.
\<close>

datatype 's outcome = Returned 's | Raised exn 's

datatype out_msg = InjectUserMessage string | KeepAlive

datatype thread =
    T_keepalive_loop
  | T_send_scripted_turns
  | T_send_interactive_turns
  | T_send_turns

text \<open>
  Names of the audio files: \<open>demo_turn{n}_{ts}_{uuid}.pcm\<close> in the demo,
  \<open>{sid}_turn{n}_{ts}.pcm\<close> in the test script. The components are kept apart instead of
  being formatted into one string.
\<close>

datatype file_name = DemoPcm nat string string | ScenPcm string nat string

text \<open>
  Lines printed on the console, one constructor per \<open>print\<close> statement of the session
  classes, carrying the values the statement formats. \<open>TagUpper r\<close> stands for
  \<open>r.upper()\<close>.
\<close>

datatype tag = TagAgent | TagUpper string

datatype display =
    ShowConnected
  | ShowAgent json
  | ShowAudioSaved file_name nat
  | ShowError json
  | ShowYou string string
  | ShowBanner
  | ShowPrompt
  | ShowAccepted
  | ShowText tag json
  | ShowErrorCode json json
  | ShowWarn json json
  | ShowTurn nat nat string string

record entry =
  role :: json
  label :: "string option"
  content :: json

text \<open>
  The fields the two classes have in common. \<open>turns\<close> is \<open>scenario["turns"]\<close>, with
  \<open>None\<close> for the interactive scenario. \<open>done_event\<close> is the completion signal (named
  \<open>done\<close> in the demo). An element of \<open>errors\<close> is the pair of code and description of an
  error event (the demo stores the two formatted into one string, the test script as a
  dictionary). The connection is the pair of \<open>ws_open\<close> and \<open>outbox\<close>, the messages
  transmitted so far, each with the time of sending. \<open>clock\<close> is the logical time in seconds,
  advanced by \<open>time.sleep\<close> only. \<open>console\<close> is what was printed, \<open>sinks\<close> the files whose
  write has completed, \<open>threads\<close> the activities started so far.
\<close>

record session =
  turns :: "(string \<times> string) list option"
  audio_buffer :: bytes
  audio_turn :: nat
  conversation :: "entry list"
  errors :: "(json \<times> json) list"
  settings_applied :: bool
  done_event :: bool
  keepalive_stop :: bool
  ws_open :: bool
  outbox :: "(rat \<times> out_msg) list"
  clock :: rat
  console :: "display list"
  sinks :: "(file_name \<times> bytes) list"
  threads :: "thread list"

record demo = session +
  ready_for_input :: bool

record scen = session +
  scenario_id :: string
  warnings :: "(json \<times> json) list"
  audio_files :: "(file_name \<times> nat \<times> nat) list"

definition KEEPALIVE_INTERVAL :: rat where
  "KEEPALIVE_INTERVAL = 7"

definition OPCODE_BINARY :: nat where
  "OPCODE_BINARY = 2"

section \<open>The connection\<close>

text \<open>
  The websocket library is not part of the repository. The two operations of it that the
  session classes call are modelled by their documented behaviour: \<open>send\<close> transmits on an
  open connection and raises on a closed one, \<open>close\<close> closes. \<open>time.sleep\<close> advances the
  logical clock.
\<close>

definition ws_send :: "out_msg \<Rightarrow> 'a session_scheme \<Rightarrow> 'a session_scheme outcome" where
  "ws_send m s =
     (if ws_open s then Returned (s\<lparr>outbox := outbox s @ [(clock s, m)]\<rparr>)
      else Raised ConnectionClosed s)"

definition ws_close :: "'a session_scheme \<Rightarrow> 'a session_scheme" where
  "ws_close s = s\<lparr>ws_open := False\<rparr>"

definition sleep :: "rat \<Rightarrow> 'a session_scheme \<Rightarrow> 'a session_scheme" where
  "sleep d s = s\<lparr>clock := clock s + d\<rparr>"

section \<open>Audio buffer\<close>

text \<open>
  \<open>DemoRunner._save_audio\<close>; \<open>ts\<close> and \<open>uid\<close> are the timestamp and the random suffix of
  the file name. Opening and writing the file can fail, which the source does not catch:
  \<open>wr\<close> tells whether the write goes through. The turn counter is incremented before the
  file is opened and the buffer is emptied after it has been written, so a failing write
  raises with the counter moved and the buffer kept.
\<close>

definition demo_save_audio :: "string \<Rightarrow> string \<Rightarrow> bool \<Rightarrow> demo \<Rightarrow> demo outcome" where
  "demo_save_audio ts uid wr s =
     (if audio_buffer s = [] then Returned s
      else
        let n = audio_turn s + 1;
            s1 = s\<lparr>audio_turn := n\<rparr>;
            fname = DemoPcm n ts uid
        in if \<not> wr then Raised OSError s1
           else
             let s2 = s1\<lparr>sinks := sinks s1 @ [(fname, audio_buffer s1)]\<rparr>;
                 size_b = length (audio_buffer s2);
                 s3 = s2\<lparr>audio_buffer := []\<rparr>
             in Returned (s3\<lparr>console := console s3 @ [ShowAudioSaved fname size_b]\<rparr>))"

text \<open>
  \<open>ScenarioRunner._save_audio\<close>, with the same order of steps; the parameter \<open>lbl\<close> is not
  used by the source either.
\<close>

definition scen_save_audio :: "string \<Rightarrow> string \<Rightarrow> bool \<Rightarrow> scen \<Rightarrow> scen outcome" where
  "scen_save_audio ts lbl wr s =
     (if audio_buffer s = [] then Returned s
      else
        let n = audio_turn s + 1;
            s1 = s\<lparr>audio_turn := n\<rparr>;
            fname = ScenPcm (scenario_id s1) n ts
        in if \<not> wr then Raised OSError s1
           else
             let s2 = s1\<lparr>sinks := sinks s1 @ [(fname, audio_buffer s1)]\<rparr>;
                 size_b = length (audio_buffer s2);
                 s3 = s2\<lparr>audio_buffer := []\<rparr>
             in Returned (s3\<lparr>audio_files := audio_files s3 @ [(fname, size_b, n)]\<rparr>))"

text \<open>\<open>_on_data\<close>, the same in both classes.\<close>

definition on_data :: "bytes \<Rightarrow> nat \<Rightarrow> 'a session_scheme \<Rightarrow> 'a session_scheme" where
  "on_data data data_type s =
     (if data_type = OPCODE_BINARY \<and> length data > 0
      then s\<lparr>audio_buffer := audio_buffer s @ data\<rparr>
      else s)"

section \<open>Event handlers\<close>

definition dict_get :: "(string \<times> json) list \<Rightarrow> string \<Rightarrow> json \<Rightarrow> json" where
  "dict_get d k dflt = (case map_of d k of None \<Rightarrow> dflt | Some v \<Rightarrow> v)"

text \<open>
  \<open>DemoRunner._on_message\<close>. \<open>event.get\<close> exists on dictionaries only, and the calls
  stand outside the \<open>try\<close>: a decoded value that is no object raises \<open>AttributeError\<close> at
  the first \<open>get\<close>. \<open>wr\<close> is handed to the flush of the audio buffer.
\<close>

fun demo_on_message ::
  "string \<Rightarrow> string \<Rightarrow> bool \<Rightarrow> message \<Rightarrow> demo \<Rightarrow> demo outcome" where
  "demo_on_message ts uid wr (Bytes b) s = Returned s"
| "demo_on_message ts uid wr (Str None) s = Returned s"
| "demo_on_message ts uid wr (Str (Some (JObj event))) s =
     (let etype = dict_get event ''type'' (JStr '''') in
      if etype = JStr ''SettingsApplied'' then
        Returned (s\<lparr>console := console s @ [ShowConnected],
                    settings_applied := True,
                    threads := threads s @
                      [T_keepalive_loop,
                       if turns s \<noteq> None then T_send_scripted_turns
                       else T_send_interactive_turns]\<rparr>)
      else if etype = JStr ''ConversationText'' then
        (let r = dict_get event ''role'' (JStr '''');
             c = dict_get event ''content'' (JStr '''');
             s1 = s\<lparr>conversation := conversation s @ [\<lparr>role = r, label = None, content = c\<rparr>]\<rparr>
         in Returned (if r = JStr ''assistant''
                      then s1\<lparr>console := console s1 @ [ShowAgent c]\<rparr> else s1))
      else if etype = JStr ''AgentAudioDone'' then
        (case demo_save_audio ts uid wr s of
           Raised e s1 \<Rightarrow> Raised e s1
         | Returned s1 \<Rightarrow>
             Returned (if turns s1 = None then s1\<lparr>ready_for_input := True\<rparr> else s1))
      else if etype = JStr ''Error'' then
        (let code = dict_get event ''code'' (JStr '''');
             desc = dict_get event ''description'' (JStr '''')
         in if code \<noteq> JStr ''CLIENT_MESSAGE_TIMEOUT''
            then Returned (s\<lparr>errors := errors s @ [(code, desc)],
                             console := console s @ [ShowError desc]\<rparr>)
            else Returned s)
      else Returned s)"
| "demo_on_message ts uid wr (Str (Some other)) s = Raised AttributeError s"

text \<open>
  \<open>ScenarioRunner._on_message\<close>. In the transcript branch \<open>role.upper()\<close> is evaluated
  after the entry has been appended, and raises when the role is no string.
\<close>

fun scen_on_message :: "string \<Rightarrow> bool \<Rightarrow> message \<Rightarrow> scen \<Rightarrow> scen outcome" where
  "scen_on_message ts wr (Bytes b) s = Returned s"
| "scen_on_message ts wr (Str None) s = Returned s"
| "scen_on_message ts wr (Str (Some (JObj event))) s =
     (let etype = dict_get event ''type'' (JStr '''') in
      if etype = JStr ''SettingsApplied'' then
        Returned (s\<lparr>settings_applied := True,
                    console := console s @ [ShowAccepted],
                    threads := threads s @ [T_keepalive_loop, T_send_turns]\<rparr>)
      else if etype = JStr ''ConversationText'' then
        (let r = dict_get event ''role'' (JStr '''');
             c = dict_get event ''content'' (JStr '''');
             s1 = s\<lparr>conversation := conversation s @ [\<lparr>role = r, label = None, content = c\<rparr>]\<rparr>
         in if r = JStr ''assistant''
            then Returned (s1\<lparr>console := console s1 @ [ShowText TagAgent c]\<rparr>)
            else (case r of
                    JStr name \<Rightarrow> Returned (s1\<lparr>console := console s1 @ [ShowText (TagUpper name) c]\<rparr>)
                  | _ \<Rightarrow> Raised AttributeError s1))
      else if etype = JStr ''AgentAudioDone'' then
        scen_save_audio ts ''agent'' wr s
      else if etype = JStr ''Error'' then
        (let desc = dict_get event ''description'' (JStr '''');
             code = dict_get event ''code'' (JStr '''');
             s1 = s\<lparr>errors := errors s @ [(code, desc)]\<rparr>;
             s2 = (if code \<noteq> JStr ''CLIENT_MESSAGE_TIMEOUT''
                   then s1\<lparr>console := console s1 @ [ShowErrorCode code desc]\<rparr> else s1)
         in if code \<in> set [JStr ''INVALID_SETTINGS'', JStr ''UNPARSABLE_CLIENT_MESSAGE'']
            then Returned (s2\<lparr>keepalive_stop := True, done_event := True\<rparr>)
            else Returned s2)
      else if etype = JStr ''Warning'' then
        (let desc = dict_get event ''description'' (JStr '''');
             code = dict_get event ''code'' (JStr '''')
         in Returned (s\<lparr>warnings := warnings s @ [(code, desc)],
                         console := console s @ [ShowWarn code desc]\<rparr>))
      else Returned s)"
| "scen_on_message ts wr (Str (Some other)) s = Raised AttributeError s"

text \<open>
  \<open>_on_close\<close> of the two classes. The statements after the flush are reached only when
  the flush returns: when its write fails, the handler raises with the stop flag set and
  the completion signal not set.
\<close>

definition demo_on_close :: "string \<Rightarrow> string \<Rightarrow> bool \<Rightarrow> demo \<Rightarrow> demo outcome" where
  "demo_on_close ts uid wr s =
     (let s1 = s\<lparr>keepalive_stop := True\<rparr>
      in case demo_save_audio ts uid wr s1 of
           Raised e s2 \<Rightarrow> Raised e s2
         | Returned s2 \<Rightarrow>
             (let s3 = s2\<lparr>done_event := True\<rparr>
              in Returned (s3\<lparr>ready_for_input := True\<rparr>)))"

definition scen_on_close :: "string \<Rightarrow> bool \<Rightarrow> scen \<Rightarrow> scen outcome" where
  "scen_on_close ts wr s =
     (let s1 = s\<lparr>keepalive_stop := True\<rparr>
      in case scen_save_audio ts ''final'' wr s1 of
           Raised e s2 \<Rightarrow> Raised e s2
         | Returned s2 \<Rightarrow> Returned (s2\<lparr>done_event := True\<rparr>))"

section \<open>Turn delivery\<close>

text \<open>
  The body of the \<open>for\<close> loop of \<open>DemoRunner._send_scripted_turns\<close>, from index \<open>i\<close> on.
  \<open>send\<close> is not guarded by a \<open>try\<close>: when it raises, the exception ends the activity.
\<close>

fun send_scripted_turns_loop :: "nat \<Rightarrow> (string \<times> string) list \<Rightarrow> demo \<Rightarrow> demo outcome" where
  "send_scripted_turns_loop i [] s = Returned s"
| "send_scripted_turns_loop i ((lbl, txt) # rest) s =
     (let s1 = sleep (if i = 0 then 4 else 6) s;
          s2 = s1\<lparr>console := console s1 @ [ShowYou lbl txt]\<rparr>
      in case ws_send (InjectUserMessage txt) s2 of
           Raised e s3 \<Rightarrow> Raised e s3
         | Returned s3 \<Rightarrow>
             send_scripted_turns_loop (i + 1) rest
               (s3\<lparr>conversation := conversation s3 @
                     [\<lparr>role = JStr ''user'', label = Some lbl, content = JStr txt\<rparr>]\<rparr>))"

text \<open>\<open>DemoRunner._send_scripted_turns\<close>; \<open>enumerate(None)\<close> raises \<open>TypeError\<close>.\<close>

definition send_scripted_turns :: "demo \<Rightarrow> demo outcome" where
  "send_scripted_turns s =
     (case turns s of
        None \<Rightarrow> Raised TypeError s
      | Some ts \<Rightarrow>
          (case send_scripted_turns_loop 0 ts s of
             Raised e s1 \<Rightarrow> Raised e s1
           | Returned s1 \<Rightarrow> Returned (ws_close ((sleep 8 s1)\<lparr>keepalive_stop := True\<rparr>))))"

text \<open>
  The loop of \<open>ScenarioRunner._send_turns\<close>; \<open>n\<close> is \<open>len(turns)\<close>, printed with each turn.
\<close>

fun send_turns_loop :: "nat \<Rightarrow> nat \<Rightarrow> (string \<times> string) list \<Rightarrow> scen \<Rightarrow> scen outcome" where
  "send_turns_loop n i [] s = Returned s"
| "send_turns_loop n i ((lbl, txt) # rest) s =
     (let wait = (if i = 0 then 3 else 6);
          s1 = sleep wait s;
          s2 = s1\<lparr>console := console s1 @ [ShowTurn (i + 1) n lbl (take 70 txt)]\<rparr>
      in case ws_send (InjectUserMessage txt) s2 of
           Raised e s3 \<Rightarrow> Raised e s3
         | Returned s3 \<Rightarrow>
             send_turns_loop n (i + 1) rest
               (s3\<lparr>conversation := conversation s3 @
                     [\<lparr>role = JStr ''user'', label = Some lbl, content = JStr txt\<rparr>]\<rparr>))"

definition send_turns :: "scen \<Rightarrow> scen outcome" where
  "send_turns s =
     (case turns s of
        None \<Rightarrow> Raised TypeError s
      | Some ts \<Rightarrow>
          (case send_turns_loop (length ts) 0 ts s of
             Raised e s1 \<Rightarrow> Raised e s1
           | Returned s1 \<Rightarrow> Returned (ws_close ((sleep 8 s1)\<lparr>keepalive_stop := True\<rparr>))))"

subsection \<open>Interactive delivery\<close>

text \<open>
  \<open>str.strip\<close> and \<open>str.lower\<close>. A \<open>char\<close> stands for one code point below 256; on these,
  \<open>str.isspace\<close> holds for the codes listed in \<open>is_space\<close>, and \<open>lower\<close> moves the ASCII and
  the Latin-1 capital letters.
\<close>

definition is_space :: "char \<Rightarrow> bool" where
  "is_space c = ((of_char c :: nat) \<in> set [9, 10, 11, 12, 13, 28, 29, 30, 31, 32, 133, 160])"

definition py_strip :: "string \<Rightarrow> string" where
  "py_strip s = rev (dropWhile is_space (rev (dropWhile is_space s)))"

definition lower_char :: "char \<Rightarrow> char" where
  "lower_char c =
     (let n = (of_char c :: nat)
      in if (65 \<le> n \<and> n \<le> 90) \<or> (192 \<le> n \<and> n \<le> 222 \<and> n \<noteq> 215)
         then char_of (n + 32) else c)"

definition py_lower :: "string \<Rightarrow> string" where
  "py_lower s = map lower_char s"

text \<open>What one call of \<open>input\<close> does: return a line, or raise.\<close>

datatype input_event = Line string | EOFError | KeyboardInterrupt

text \<open>
  The \<open>while\<close> loop of \<open>DemoRunner._send_interactive_turns\<close>, run on the lines still to come
  from standard input; at the end of input \<open>input\<close> raises \<open>EOFError\<close>. The activity is
  followed on its own: \<open>_ready_for_input.wait()\<close> returns when the flag is set, and when it
  is not set the wait lasts until another activity sets it, which is the result \<open>None\<close>.
\<close>

fun send_interactive_turns_loop :: "input_event list \<Rightarrow> demo \<Rightarrow> demo outcome option" where
  "send_interactive_turns_loop [] s =
     (if done_event s then Some (Returned s)
      else if \<not> ready_for_input s then None
      else Some (Returned (s\<lparr>ready_for_input := False, console := console s @ [ShowPrompt]\<rparr>)))"
| "send_interactive_turns_loop (Line raw # rest) s =
     (if done_event s then Some (Returned s)
      else if \<not> ready_for_input s then None
      else
        let s1 = s\<lparr>ready_for_input := False, console := console s @ [ShowPrompt]\<rparr>;
            txt = py_strip raw
        in if txt = [] \<or> py_lower txt \<in> set [''quit'', ''exit'', ''q'']
           then Some (Returned s1)
           else (case ws_send (InjectUserMessage txt) s1 of
                   Raised e s2 \<Rightarrow> Some (Raised e s2)
                 | Returned s2 \<Rightarrow>
                     send_interactive_turns_loop rest
                       (sleep (1 / 2)
                          (s2\<lparr>conversation := conversation s2 @
                                [\<lparr>role = JStr ''user'', label = Some ''custom'',
                                  content = JStr txt\<rparr>]\<rparr>))))"
| "send_interactive_turns_loop (ev # rest) s =
     (if done_event s then Some (Returned s)
      else if \<not> ready_for_input s then None
      else Some (Returned (s\<lparr>ready_for_input := False, console := console s @ [ShowPrompt]\<rparr>)))"

definition send_interactive_turns :: "input_event list \<Rightarrow> demo \<Rightarrow> demo outcome option" where
  "send_interactive_turns inp s =
     (let s0 = s\<lparr>console := console s @ [ShowBanner], ready_for_input := True\<rparr>
      in case send_interactive_turns_loop inp s0 of
           None \<Rightarrow> None
         | Some (Raised e s1) \<Rightarrow> Some (Raised e s1)
         | Some (Returned s1) \<Rightarrow> Some (Returned (ws_close (s1\<lparr>keepalive_stop := True\<rparr>))))"

section \<open>Liveness loop\<close>

text \<open>
  \<open>_keepalive_loop\<close>, the same in both classes. What the loop does depends on when another
  activity sets \<open>_keepalive_stop\<close> and on whether the connection takes the message, so both
  are parameters: \<open>stop\<close> is the time at which the flag is set (\<open>None\<close>: never; nothing in
  the source clears the flag), \<open>conn t\<close> tells whether a \<open>send\<close> at time \<open>t\<close> succeeds. Time
  passes in \<open>wait\<close> only, so the flag read before the \<open>send\<close> is the flag at the time of the
  \<open>send\<close>. The loop need not end: the first argument bounds the number of iterations, and the
  result is the messages sent, with their times, and whether the loop has ended.
\<close>

definition is_set_at :: "rat option \<Rightarrow> rat \<Rightarrow> bool" where
  "is_set_at stop t = (case stop of None \<Rightarrow> False | Some ts \<Rightarrow> ts \<le> t)"

text \<open>\<open>Event.wait(timeout)\<close> entered at time \<open>t\<close>: the time at which it returns.\<close>

definition event_wait :: "rat option \<Rightarrow> rat \<Rightarrow> rat \<Rightarrow> rat" where
  "event_wait stop timeout t =
     (case stop of
        None \<Rightarrow> t + timeout
      | Some ts \<Rightarrow> if ts \<le> t then t else min ts (t + timeout))"

fun keepalive_loop ::
  "nat \<Rightarrow> rat option \<Rightarrow> (rat \<Rightarrow> bool) \<Rightarrow> rat \<Rightarrow> (rat \<times> out_msg) list \<times> bool" where
  "keepalive_loop 0 stop conn t = ([], False)"
| "keepalive_loop (Suc fuel) stop conn t =
     (if is_set_at stop t then ([], True)
      else
        let t1 = event_wait stop KEEPALIVE_INTERVAL t
        in if is_set_at stop t1 then ([], True)
           else if conn t1
           then (case keepalive_loop fuel stop conn t1 of
                   (sent, ended) \<Rightarrow> ((t1, KeepAlive) # sent, ended))
           else ([], True))"

section \<open>End of a run\<close>

text \<open>
  The part of \<open>run\<close> after \<open>done.wait\<close> has returned, the same in both classes: when the
  connection thread is still alive, which it is as long as the connection is open, the stop
  flag is set and the connection closed.
\<close>

definition run_after_wait :: "'a session_scheme \<Rightarrow> 'a session_scheme" where
  "run_after_wait s = (if ws_open s then ws_close (s\<lparr>keepalive_stop := True\<rparr>) else s)"

text \<open>The user turns among the messages transmitted on a session.\<close>

fun is_user_turn :: "out_msg \<Rightarrow> bool" where
  "is_user_turn (InjectUserMessage txt) = True"
| "is_user_turn KeepAlive = False"

definition user_turns_sent :: "'a session_scheme \<Rightarrow> (rat \<times> out_msg) list" where
  "user_turns_sent s = filter (\<lambda>p. is_user_turn (snd p)) (outbox s)"

fun state_of :: "'s outcome \<Rightarrow> 's" where
  "state_of (Returned s) = s"
| "state_of (Raised e s) = s"

section \<open>A fresh session\<close>

text \<open>
  \<open>__init__\<close> of the two classes, for a scenario with the given turns (and identifier), and
  the opening of the connection by the library when \<open>run\<close> starts it.
\<close>

definition demo_init :: "(string \<times> string) list option \<Rightarrow> demo" where
  "demo_init ts =
     \<lparr>turns = ts, audio_buffer = [], audio_turn = 0, conversation = [], errors = [],
      settings_applied = False, done_event = False, keepalive_stop = False,
      ws_open = False, outbox = [], clock = 0, console = [], sinks = [], threads = [],
      ready_for_input = False\<rparr>"

definition scen_init :: "string \<Rightarrow> (string \<times> string) list option \<Rightarrow> scen" where
  "scen_init sid ts =
     \<lparr>turns = ts, audio_buffer = [], audio_turn = 0, conversation = [], errors = [],
      settings_applied = False, done_event = False, keepalive_stop = False,
      ws_open = False, outbox = [], clock = 0, console = [], sinks = [], threads = [],
      scenario_id = sid, warnings = [], audio_files = []\<rparr>"

definition ws_connect :: "'a session_scheme \<Rightarrow> 'a session_scheme" where
  "ws_connect s = s\<lparr>ws_open := True\<rparr>"

section \<open>Frames of the remote service\<close>

text \<open>
  The textual frames of the agent service that the examples below use, as \<open>json.loads\<close>
  decodes them.
\<close>

definition error_event :: "string \<Rightarrow> string \<Rightarrow> message" where
  "error_event code desc =
     Str (Some (JObj [(''type'', JStr ''Error''), (''description'', JStr desc),
                      (''code'', JStr code)]))"

definition warning_event :: "string \<Rightarrow> string \<Rightarrow> message" where
  "warning_event code desc =
     Str (Some (JObj [(''type'', JStr ''Warning''), (''description'', JStr desc),
                      (''code'', JStr code)]))"

definition settings_applied_event :: message where
  "settings_applied_event = Str (Some (JObj [(''type'', JStr ''SettingsApplied'')]))"

section \<open>Audio buffer: flush and growth\<close>

lemma on_data_chunks:
  "audio_buffer (fold (\<lambda>d. on_data d OPCODE_BINARY) chunks s) = audio_buffer s @ concat chunks"
  by (induction chunks arbitrary: s) (auto simp: on_data_def)

lemma on_data_other_opcode: "ty \<noteq> OPCODE_BINARY \<Longrightarrow> on_data d ty s = s"
  by (simp add: on_data_def)

text \<open>A flush whose write fails: the counter has moved, the buffer is kept, no sink.\<close>

lemma save_audio_write_fails:
  "audio_buffer sd \<noteq> [] \<Longrightarrow>
     demo_save_audio ts uid False sd = Raised OSError (sd\<lparr>audio_turn := audio_turn sd + 1\<rparr>)"
  "audio_buffer ss \<noteq> [] \<Longrightarrow>
     scen_save_audio ts lbl False ss = Raised OSError (ss\<lparr>audio_turn := audio_turn ss + 1\<rparr>)"
  by (simp_all add: demo_save_audio_def scen_save_audio_def Let_def)

text \<open>
  Claim C5. In both classes: a flush of a non-empty buffer whose write goes through writes
  one sink holding the buffer, counts one turn and leaves the buffer empty; a flush of an
  empty buffer changes nothing (no sink, same turn counter); a non-empty binary chunk is
  appended to the buffer, which grows by the length of the chunk, so that after a run of
  binary chunks the buffer is what it was, followed by the chunks in the order received.
\<close>

theorem audio_buffer_flush_and_growth:
  "(audio_buffer sd \<noteq> [] \<longrightarrow>
      demo_save_audio ts uid True sd =
        Returned (sd\<lparr>audio_turn := audio_turn sd + 1,
                    sinks := sinks sd @ [(DemoPcm (audio_turn sd + 1) ts uid, audio_buffer sd)],
                    audio_buffer := [],
                    console := console sd @
                      [ShowAudioSaved (DemoPcm (audio_turn sd + 1) ts uid)
                         (length (audio_buffer sd))]\<rparr>) \<and>
      audio_buffer (state_of (demo_save_audio ts uid True sd)) = [] \<and>
      sinks (state_of (demo_save_audio ts uid True sd)) =
        sinks sd @ [(DemoPcm (audio_turn sd + 1) ts uid, audio_buffer sd)] \<and>
      audio_turn (state_of (demo_save_audio ts uid True sd)) = audio_turn sd + 1) \<and>
   (audio_buffer ss \<noteq> [] \<longrightarrow>
      scen_save_audio ts lbl True ss =
        Returned (ss\<lparr>audio_turn := audio_turn ss + 1,
                    sinks := sinks ss @
                      [(ScenPcm (scenario_id ss) (audio_turn ss + 1) ts, audio_buffer ss)],
                    audio_buffer := [],
                    audio_files := audio_files ss @
                      [(ScenPcm (scenario_id ss) (audio_turn ss + 1) ts,
                        length (audio_buffer ss), audio_turn ss + 1)]\<rparr>) \<and>
      audio_buffer (state_of (scen_save_audio ts lbl True ss)) = [] \<and>
      sinks (state_of (scen_save_audio ts lbl True ss)) =
        sinks ss @ [(ScenPcm (scenario_id ss) (audio_turn ss + 1) ts, audio_buffer ss)] \<and>
      audio_turn (state_of (scen_save_audio ts lbl True ss)) = audio_turn ss + 1) \<and>
   (audio_buffer ed = [] \<longrightarrow> demo_save_audio ts uid wr ed = Returned ed) \<and>
   (audio_buffer es = [] \<longrightarrow> scen_save_audio ts lbl wr es = Returned es) \<and>
   (chunk \<noteq> [] \<longrightarrow>
      audio_buffer (on_data chunk OPCODE_BINARY sd) = audio_buffer sd @ chunk \<and>
      length (audio_buffer (on_data chunk OPCODE_BINARY sd)) =
        length (audio_buffer sd) + length chunk \<and>
      audio_buffer (on_data chunk OPCODE_BINARY ss) = audio_buffer ss @ chunk \<and>
      length (audio_buffer (on_data chunk OPCODE_BINARY ss)) =
        length (audio_buffer ss) + length chunk) \<and>
   audio_buffer (fold (\<lambda>d. on_data d OPCODE_BINARY) chunks sd) = audio_buffer sd @ concat chunks \<and>
   audio_buffer (fold (\<lambda>d. on_data d OPCODE_BINARY) chunks ss) = audio_buffer ss @ concat chunks"
  by (simp add: demo_save_audio_def scen_save_audio_def on_data_def on_data_chunks Let_def)

theorem audio_buffer_flush_and_growth_witness:
  "audio_buffer ((demo_init None)\<lparr>audio_buffer := [1, 2]\<rparr>) \<noteq> [] \<and>
   audio_buffer ((scen_init ''T1'' (Some []))\<lparr>audio_buffer := [7]\<rparr>) \<noteq> [] \<and>
   audio_buffer (demo_init None) = [] \<and>
   audio_buffer (scen_init ''T1'' (Some [])) = [] \<and>
   [3, 4 :: byte] \<noteq> [] \<and>
   sinks (state_of (demo_save_audio ''t'' ''u'' True ((demo_init None)\<lparr>audio_buffer := [1, 2]\<rparr>))) =
     [(DemoPcm 1 ''t'' ''u'', [1, 2])] \<and>
   audio_buffer (state_of
     (demo_save_audio ''t'' ''u'' True ((demo_init None)\<lparr>audio_buffer := [1, 2]\<rparr>))) = [] \<and>
   sinks (state_of
     (scen_save_audio ''t'' ''agent'' True ((scen_init ''T1'' (Some []))\<lparr>audio_buffer := [7]\<rparr>))) =
     [(ScenPcm ''T1'' 1 ''t'', [7])] \<and>
   demo_save_audio ''t'' ''u'' False (demo_init None) = Returned (demo_init None) \<and>
   scen_save_audio ''t'' ''agent'' False (scen_init ''T1'' (Some [])) =
     Returned (scen_init ''T1'' (Some [])) \<and>
   audio_buffer (on_data [3, 4] OPCODE_BINARY ((demo_init None)\<lparr>audio_buffer := [1, 2]\<rparr>)) =
     [1, 2, 3, 4]"
  using audio_buffer_flush_and_growth
    [of "(demo_init None)\<lparr>audio_buffer := [1, 2]\<rparr>" "''t''" "''u''"
        "(scen_init ''T1'' (Some []))\<lparr>audio_buffer := [7]\<rparr>" "''agent''"
        "demo_init None" "False" "scen_init ''T1'' (Some [])" "[3, 4]" "[[3], [], [4]]"]
  by (simp add: demo_init_def scen_init_def)

section \<open>Closing\<close>

text \<open>
  Claim C6, as amended. In both classes, when the flush of the first close does not fail
  (the buffer is empty, or the write goes through), the close handler returns with the stop
  flag and the completion signal set and the buffer empty, having written the buffered
  audio to one sink, or none when there was no audio; a second run of the handler then
  changes nothing, whatever file name it would use and whether or not a write would go
  through. When the write of the first close fails, the handler raises with the stop flag
  set and the turn counter moved, the buffer kept and the completion signal not set. The
  close that \<open>run\<close> starts itself is idempotent.
\<close>

theorem close_idempotent:
  "(wr \<or> audio_buffer sd = [] \<longrightarrow>
      demo_on_close ts uid wr sd =
        Returned
          (if audio_buffer sd = []
           then sd\<lparr>keepalive_stop := True, done_event := True, ready_for_input := True\<rparr>
           else sd\<lparr>keepalive_stop := True,
                   audio_turn := audio_turn sd + 1,
                   sinks := sinks sd @ [(DemoPcm (audio_turn sd + 1) ts uid, audio_buffer sd)],
                   audio_buffer := [],
                   console := console sd @
                     [ShowAudioSaved (DemoPcm (audio_turn sd + 1) ts uid)
                        (length (audio_buffer sd))],
                   done_event := True, ready_for_input := True\<rparr>) \<and>
      demo_on_close ts2 uid2 wr2 (state_of (demo_on_close ts uid wr sd)) =
        Returned (state_of (demo_on_close ts uid wr sd))) \<and>
   (\<not> wr \<and> audio_buffer sd \<noteq> [] \<longrightarrow>
      demo_on_close ts uid wr sd =
        Raised OSError (sd\<lparr>keepalive_stop := True, audio_turn := audio_turn sd + 1\<rparr>)) \<and>
   (wr \<or> audio_buffer ss = [] \<longrightarrow>
      scen_on_close ts wr ss =
        Returned
          (if audio_buffer ss = []
           then ss\<lparr>keepalive_stop := True, done_event := True\<rparr>
           else ss\<lparr>keepalive_stop := True,
                   audio_turn := audio_turn ss + 1,
                   sinks := sinks ss @
                     [(ScenPcm (scenario_id ss) (audio_turn ss + 1) ts, audio_buffer ss)],
                   audio_buffer := [],
                   audio_files := audio_files ss @
                     [(ScenPcm (scenario_id ss) (audio_turn ss + 1) ts,
                       length (audio_buffer ss), audio_turn ss + 1)],
                   done_event := True\<rparr>) \<and>
      scen_on_close ts2 wr2 (state_of (scen_on_close ts wr ss)) =
        Returned (state_of (scen_on_close ts wr ss))) \<and>
   (\<not> wr \<and> audio_buffer ss \<noteq> [] \<longrightarrow>
      scen_on_close ts wr ss =
        Raised OSError (ss\<lparr>keepalive_stop := True, audio_turn := audio_turn ss + 1\<rparr>)) \<and>
   run_after_wait (run_after_wait sd) = run_after_wait sd \<and>
   run_after_wait (run_after_wait ss) = run_after_wait ss"
  by (auto simp add: demo_on_close_def scen_on_close_def demo_save_audio_def scen_save_audio_def
      run_after_wait_def ws_close_def Let_def)

theorem close_idempotent_witness:
  "(True \<or> audio_buffer ((demo_init None)\<lparr>audio_buffer := [1, 2]\<rparr>) = []) \<and>
   sinks (state_of (demo_on_close ''t'' ''u'' True ((demo_init None)\<lparr>audio_buffer := [1, 2]\<rparr>))) =
     [(DemoPcm 1 ''t'' ''u'', [1, 2])] \<and>
   done_event (state_of
     (demo_on_close ''t'' ''u'' True ((demo_init None)\<lparr>audio_buffer := [1, 2]\<rparr>))) \<and>
   demo_on_close ''v'' ''w'' False
       (state_of (demo_on_close ''t'' ''u'' True ((demo_init None)\<lparr>audio_buffer := [1, 2]\<rparr>))) =
     Returned
       (state_of (demo_on_close ''t'' ''u'' True ((demo_init None)\<lparr>audio_buffer := [1, 2]\<rparr>))) \<and>
   sinks (state_of
     (scen_on_close ''t'' True ((scen_init ''T1'' (Some []))\<lparr>audio_buffer := [7]\<rparr>))) =
     [(ScenPcm ''T1'' 1 ''t'', [7])] \<and>
   scen_on_close ''v'' False
       (state_of (scen_on_close ''t'' True ((scen_init ''T1'' (Some []))\<lparr>audio_buffer := [7]\<rparr>))) =
     Returned
       (state_of (scen_on_close ''t'' True ((scen_init ''T1'' (Some []))\<lparr>audio_buffer := [7]\<rparr>)))"
  using close_idempotent
    [of True "(demo_init None)\<lparr>audio_buffer := [1, 2]\<rparr>" "''t''" "''u''" "''v''" "''w''" False
        "(scen_init ''T1'' (Some []))\<lparr>audio_buffer := [7]\<rparr>"]
  by (simp add: demo_init_def scen_init_def demo_on_close_def scen_on_close_def
      demo_save_audio_def scen_save_audio_def Let_def)

text \<open>
  The claim as first stated fails when the write of the final flush fails: the first close
  raises with the turn counter at 1 and the session not finished, and a second close
  changes the session again. It moves the counter to 2, and when its write goes through it
  is the second close that writes the sink.
\<close>

theorem close_idempotent_counterexample:
  "demo_on_close ''t'' ''u'' False ((demo_init None)\<lparr>audio_buffer := [1, 2]\<rparr>) =
     Raised OSError ((demo_init None)\<lparr>audio_buffer := [1, 2], keepalive_stop := True,
                                       audio_turn := 1\<rparr>) \<and>
   \<not> done_event (state_of
     (demo_on_close ''t'' ''u'' False ((demo_init None)\<lparr>audio_buffer := [1, 2]\<rparr>))) \<and>
   audio_turn (state_of (demo_on_close ''v'' ''w'' False (state_of
     (demo_on_close ''t'' ''u'' False ((demo_init None)\<lparr>audio_buffer := [1, 2]\<rparr>))))) = 2 \<and>
   sinks (state_of (demo_on_close ''v'' ''w'' True (state_of
     (demo_on_close ''t'' ''u'' False ((demo_init None)\<lparr>audio_buffer := [1, 2]\<rparr>))))) =
     [(DemoPcm 2 ''v'' ''w'', [1, 2])] \<and>
   audio_turn (state_of (scen_on_close ''v'' False (state_of
     (scen_on_close ''t'' False ((scen_init ''T1'' (Some []))\<lparr>audio_buffer := [7]\<rparr>))))) = 2"
  by (simp add: demo_on_close_def scen_on_close_def demo_save_audio_def scen_save_audio_def
      demo_init_def scen_init_def Let_def)

section \<open>Frames that are not events\<close>

text \<open>
  A frame decoded to a value that is no object has no \<open>type\<close> entry at all; on it the
  handler raises, before it has changed the session.
\<close>

lemma non_object_frame_raises:
  "(\<forall>kvs. j \<noteq> JObj kvs) \<Longrightarrow>
     demo_on_message ts uid wr (Str (Some j)) sd = Raised AttributeError sd \<and>
     scen_on_message ts wr (Str (Some j)) ss = Raised AttributeError ss"
  by (cases j) simp_all

text \<open>
  Claim C10, as amended. A textual frame on which \<open>json.loads\<close> raises, and a frame decoded
  to an object whose \<open>type\<close> entry (the empty string when there is none) is none of the
  types the class handles, make the handler return with the session as it was. The demo
  handles four types, the test script also \<open>Warning\<close>. A frame decoded to a value that is no
  object (null, a number, a string, an array) leaves the session as it was too, but the
  handler does not return on it: it raises \<open>AttributeError\<close>.
\<close>

theorem unrecognized_frame_ignored:
  "demo_on_message ts uid wr (Str None) sd = Returned sd \<and>
   scen_on_message ts wr (Str None) ss = Returned ss \<and>
   (dict_get event ''type'' (JStr '''') \<notin>
      set [JStr ''SettingsApplied'', JStr ''ConversationText'', JStr ''AgentAudioDone'',
           JStr ''Error'']
    \<longrightarrow> demo_on_message ts uid wr (Str (Some (JObj event))) sd = Returned sd) \<and>
   (dict_get event ''type'' (JStr '''') \<notin>
      set [JStr ''SettingsApplied'', JStr ''ConversationText'', JStr ''AgentAudioDone'',
           JStr ''Error'', JStr ''Warning'']
    \<longrightarrow> scen_on_message ts wr (Str (Some (JObj event))) ss = Returned ss) \<and>
   ((\<forall>kvs. j \<noteq> JObj kvs) \<longrightarrow>
      demo_on_message ts uid wr (Str (Some j)) sd = Raised AttributeError sd \<and>
      scen_on_message ts wr (Str (Some j)) ss = Raised AttributeError ss)"
  using non_object_frame_raises [of j ts uid wr sd ss] by (simp add: Let_def)

theorem unrecognized_frame_ignored_witness:
  "dict_get [(''type'', JStr ''Welcome''), (''request_id'', JStr ''r1'')] ''type'' (JStr '''') \<notin>
      set [JStr ''SettingsApplied'', JStr ''ConversationText'', JStr ''AgentAudioDone'',
           JStr ''Error'', JStr ''Warning''] \<and>
   (\<forall>kvs. JNumber 5 \<noteq> JObj kvs) \<and>
   demo_on_message ''t'' ''u'' True
      (Str (Some (JObj [(''type'', JStr ''Welcome''), (''request_id'', JStr ''r1'')])))
      (ws_connect (demo_init None)) = Returned (ws_connect (demo_init None)) \<and>
   scen_on_message ''t'' True
      (Str (Some (JObj [(''type'', JStr ''Welcome''), (''request_id'', JStr ''r1'')])))
      (ws_connect (scen_init ''T1'' (Some []))) = Returned (ws_connect (scen_init ''T1'' (Some []))) \<and>
   demo_on_message ''t'' ''u'' True (Str (Some (JNumber 5))) (ws_connect (demo_init None)) =
     Raised AttributeError (ws_connect (demo_init None))"
  using unrecognized_frame_ignored
    [of "''t''" "''u''" True "ws_connect (demo_init None)" "ws_connect (scen_init ''T1'' (Some []))"
        "[(''type'', JStr ''Welcome''), (''request_id'', JStr ''r1'')]" "JNumber 5"]
  by (simp add: dict_get_def)

text \<open>
  The claim as first stated fails on frames that are JSON and no object: \<open>null\<close> and an
  array decode without error, carry none of the handled types, and make the handlers
  raise.
\<close>

theorem unrecognized_frame_ignored_counterexample:
  "demo_on_message ''t'' ''u'' True (Str (Some JNull)) (ws_connect (demo_init None)) =
     Raised AttributeError (ws_connect (demo_init None)) \<and>
   scen_on_message ''t'' True (Str (Some (JArr [JNumber 1, JNumber 2])))
      (ws_connect (scen_init ''T1'' (Some []))) =
     Raised AttributeError (ws_connect (scen_init ''T1'' (Some [])))"
  by simp

section \<open>Errors and warnings\<close>

text \<open>
  Claim C3, as amended. In the test script every error event is appended to the error
  list, the idle-timeout code included, and every one but the idle-timeout code is shown. In
  the demo an error event with the idle-timeout code is neither recorded nor shown: the
  handler returns with the session as it was; every other error event is recorded and its
  description shown.
\<close>

theorem error_recording:
  "dict_get event ''type'' (JStr '''') = JStr ''Error'' \<Longrightarrow>
   code = dict_get event ''code'' (JStr '''') \<Longrightarrow>
   desc = dict_get event ''description'' (JStr '''') \<Longrightarrow>
   errors (state_of (scen_on_message ts wr (Str (Some (JObj event))) ss)) =
     errors ss @ [(code, desc)] \<and>
   console (state_of (scen_on_message ts wr (Str (Some (JObj event))) ss)) =
     (if code = JStr ''CLIENT_MESSAGE_TIMEOUT'' then console ss
      else console ss @ [ShowErrorCode code desc]) \<and>
   demo_on_message ts uid wr (Str (Some (JObj event))) sd =
     (if code = JStr ''CLIENT_MESSAGE_TIMEOUT'' then Returned sd
      else Returned (sd\<lparr>errors := errors sd @ [(code, desc)],
                        console := console sd @ [ShowError desc]\<rparr>))"
  by (simp add: Let_def)

theorem error_recording_witness:
  "dict_get [(''type'', JStr ''Error''), (''description'', JStr ''idle''),
             (''code'', JStr ''CLIENT_MESSAGE_TIMEOUT'')] ''type'' (JStr '''') = JStr ''Error'' \<and>
   errors (state_of (scen_on_message ''t'' True
      (Str (Some (JObj [(''type'', JStr ''Error''), (''description'', JStr ''idle''),
                        (''code'', JStr ''CLIENT_MESSAGE_TIMEOUT'')])))
      (ws_connect (scen_init ''T1'' (Some []))))) =
     [(JStr ''CLIENT_MESSAGE_TIMEOUT'', JStr ''idle'')] \<and>
   console (state_of (scen_on_message ''t'' True
      (Str (Some (JObj [(''type'', JStr ''Error''), (''description'', JStr ''idle''),
                        (''code'', JStr ''CLIENT_MESSAGE_TIMEOUT'')])))
      (ws_connect (scen_init ''T1'' (Some []))))) = [] \<and>
   demo_on_message ''t'' ''u'' True
      (Str (Some (JObj [(''type'', JStr ''Error''), (''description'', JStr ''idle''),
                        (''code'', JStr ''CLIENT_MESSAGE_TIMEOUT'')])))
      (ws_connect (demo_init None)) = Returned (ws_connect (demo_init None))"
  using error_recording
    [of "[(''type'', JStr ''Error''), (''description'', JStr ''idle''),
          (''code'', JStr ''CLIENT_MESSAGE_TIMEOUT'')]"
        "JStr ''CLIENT_MESSAGE_TIMEOUT''" "JStr ''idle''" "''t''" "True"
        "ws_connect (scen_init ''T1'' (Some []))" "''u''" "ws_connect (demo_init None)"]
  by (simp add: dict_get_def scen_init_def ws_connect_def)

text \<open>
  The claim as first stated fails in the demo: an idle-timeout error is received and the
  error list stays empty.
\<close>

theorem error_recording_counterexample:
  "errors (state_of (demo_on_message ''t'' ''u'' True
      (error_event ''CLIENT_MESSAGE_TIMEOUT'' ''no client message'')
      (ws_connect (demo_init None)))) = []"
  by (simp add: error_event_def dict_get_def demo_init_def ws_connect_def)

text \<open>
  Claim C8, as amended. In the test script a warning event is appended to the warning
  record and shown, and nothing else changes: the flags and the connection stay as they
  were, so the session goes on. The demo has no warning record and no branch for warnings:
  the handler returns with the session as it was.
\<close>

theorem warning_recording:
  "dict_get event ''type'' (JStr '''') = JStr ''Warning'' \<Longrightarrow>
   code = dict_get event ''code'' (JStr '''') \<Longrightarrow>
   desc = dict_get event ''description'' (JStr '''') \<Longrightarrow>
   s1 = state_of (scen_on_message ts wr (Str (Some (JObj event))) ss) \<Longrightarrow>
   scen_on_message ts wr (Str (Some (JObj event))) ss =
     Returned (ss\<lparr>warnings := warnings ss @ [(code, desc)],
                  console := console ss @ [ShowWarn code desc]\<rparr>) \<and>
   warnings s1 = warnings ss @ [(code, desc)] \<and>
   console s1 = console ss @ [ShowWarn code desc] \<and>
   done_event s1 = done_event ss \<and> keepalive_stop s1 = keepalive_stop ss \<and>
   ws_open s1 = ws_open ss \<and>
   demo_on_message ts uid wr (Str (Some (JObj event))) sd = Returned sd"
  by (simp add: Let_def)

theorem warning_recording_witness:
  "dict_get [(''type'', JStr ''Warning''), (''description'', JStr ''slow''),
             (''code'', JStr ''W1'')] ''type'' (JStr '''') = JStr ''Warning'' \<and>
   warnings (state_of (scen_on_message ''t'' True
      (Str (Some (JObj [(''type'', JStr ''Warning''), (''description'', JStr ''slow''),
                        (''code'', JStr ''W1'')])))
      (ws_connect (scen_init ''T1'' (Some []))))) = [(JStr ''W1'', JStr ''slow'')] \<and>
   console (state_of (scen_on_message ''t'' True
      (Str (Some (JObj [(''type'', JStr ''Warning''), (''description'', JStr ''slow''),
                        (''code'', JStr ''W1'')])))
      (ws_connect (scen_init ''T1'' (Some []))))) = [ShowWarn (JStr ''W1'') (JStr ''slow'')] \<and>
   \<not> done_event (state_of (scen_on_message ''t'' True
      (Str (Some (JObj [(''type'', JStr ''Warning''), (''description'', JStr ''slow''),
                        (''code'', JStr ''W1'')])))
      (ws_connect (scen_init ''T1'' (Some [])))))"
  using warning_recording
    [of "[(''type'', JStr ''Warning''), (''description'', JStr ''slow''), (''code'', JStr ''W1'')]"
        "JStr ''W1''" "JStr ''slow''"
        "state_of (scen_on_message ''t'' True
           (Str (Some (JObj [(''type'', JStr ''Warning''), (''description'', JStr ''slow''),
                             (''code'', JStr ''W1'')])))
           (ws_connect (scen_init ''T1'' (Some []))))"
        "''t''" "True" "ws_connect (scen_init ''T1'' (Some []))" "''u''" "ws_connect (demo_init None)"]
  by (simp add: dict_get_def scen_init_def ws_connect_def)

text \<open>
  The claim as first stated fails in the demo: a warning is received, nothing is shown and
  nothing is recorded.
\<close>

theorem warning_recording_counterexample:
  "demo_on_message ''t'' ''u'' True (warning_event ''W1'' ''slow'') (ws_connect (demo_init None)) =
     Returned (ws_connect (demo_init None)) \<and>
   console (state_of (demo_on_message ''t'' ''u'' True (warning_event ''W1'' ''slow'')
      (ws_connect (demo_init None)))) = []"
  by (simp add: warning_event_def dict_get_def demo_init_def ws_connect_def)

section \<open>Liveness loop: spacing and stop\<close>

lemma event_wait_not_set:
  "\<not> is_set_at stop (event_wait stop d t) \<Longrightarrow> 0 \<le> d \<Longrightarrow> event_wait stop d t = t + d"
  by (auto simp: is_set_at_def event_wait_def min_def split: option.splits if_splits)

text \<open>
  Every message of the loop is sent a full interval after the loop was entered, at a time
  when the flag is not set and the connection takes it.
\<close>

lemma keepalive_loop_after_interval:
  "p \<in> set (fst (keepalive_loop fuel stop conn t)) \<Longrightarrow>
     t + KEEPALIVE_INTERVAL \<le> fst p \<and> \<not> is_set_at stop (fst p) \<and> conn (fst p) \<and> snd p = KeepAlive"
proof (induction fuel arbitrary: t)
  case 0
  then show ?case by simp
next
  case (Suc fuel)
  let ?t1 = "event_wait stop KEEPALIVE_INTERVAL t"
  from Suc.prems have live: "\<not> is_set_at stop t" "\<not> is_set_at stop ?t1" "conn ?t1"
    by (auto simp: Let_def split: if_splits)
  then have t1: "?t1 = t + KEEPALIVE_INTERVAL"
    using event_wait_not_set [of stop KEEPALIVE_INTERVAL t] by (simp add: KEEPALIVE_INTERVAL_def)
  from Suc.prems live have "p = (?t1, KeepAlive) \<or> p \<in> set (fst (keepalive_loop fuel stop conn ?t1))"
    by (auto simp: Let_def split: prod.splits)
  then show ?case
  proof
    assume "p = (?t1, KeepAlive)"
    with live t1 show ?thesis by simp
  next
    assume "p \<in> set (fst (keepalive_loop fuel stop conn ?t1))"
    from Suc.IH [OF this] t1 show ?thesis by (simp add: KEEPALIVE_INTERVAL_def)
  qed
qed

lemma keepalive_loop_spaced:
  "sorted_wrt (\<lambda>a b. a + KEEPALIVE_INTERVAL \<le> b) (map fst (fst (keepalive_loop fuel stop conn t)))"
proof (induction fuel arbitrary: t)
  case 0
  then show ?case by simp
next
  case (Suc fuel)
  let ?t1 = "event_wait stop KEEPALIVE_INTERVAL t"
  show ?case
  proof (cases "\<not> is_set_at stop t \<and> \<not> is_set_at stop ?t1 \<and> conn ?t1")
    case False
    then show ?thesis by (auto simp: Let_def)
  next
    case True
    obtain sent ended where r: "keepalive_loop fuel stop conn ?t1 = (sent, ended)"
      by (cases "keepalive_loop fuel stop conn ?t1")
    have "\<forall>p \<in> set sent. ?t1 + KEEPALIVE_INTERVAL \<le> fst p"
      using keepalive_loop_after_interval [of _ fuel stop conn ?t1] r by auto
    moreover have "sorted_wrt (\<lambda>a b. a + KEEPALIVE_INTERVAL \<le> b) (map fst sent)"
      using Suc.IH [of ?t1] r by simp
    ultimately show ?thesis using True r by (simp add: Let_def)
  qed
qed

text \<open>
  Once the flag is set the loop ends: \<open>n\<close> intervals after its start reach the time of the
  flag, and \<open>n + 1\<close> iterations are enough.
\<close>

lemma keepalive_loop_ends:
  "ts \<le> t + KEEPALIVE_INTERVAL * of_nat n \<Longrightarrow> snd (keepalive_loop (Suc n) (Some ts) conn t)"
proof (induction n arbitrary: t)
  case 0
  then show ?case by (simp add: is_set_at_def)
next
  case (Suc n)
  let ?t1 = "event_wait (Some ts) KEEPALIVE_INTERVAL t"
  note unfold = keepalive_loop.simps(2) [of "Suc n" "Some ts" conn t]
  show ?case
  proof (cases "\<not> is_set_at (Some ts) t \<and> \<not> is_set_at (Some ts) ?t1 \<and> conn ?t1")
    case False
    then show ?thesis unfolding unfold by (auto simp: Let_def)
  next
    case True
    then have t1: "?t1 = t + KEEPALIVE_INTERVAL"
      using event_wait_not_set [of "Some ts" KEEPALIVE_INTERVAL t] by (simp add: KEEPALIVE_INTERVAL_def)
    have "ts \<le> ?t1 + KEEPALIVE_INTERVAL * of_nat n"
      using Suc.prems t1 by (simp add: algebra_simps)
    then have inner: "snd (keepalive_loop (Suc n) (Some ts) conn ?t1)"
      by (rule Suc.IH)
    obtain sent ended where r: "keepalive_loop (Suc n) (Some ts) conn ?t1 = (sent, ended)"
      by (cases "keepalive_loop (Suc n) (Some ts) conn ?t1")
    with inner have "ended" by simp
    with True r show ?thesis unfolding unfold by (simp add: Let_def)
  qed
qed

lemma keepalive_loop_stops:
  "\<exists>fuel. snd (keepalive_loop fuel (Some ts) conn t)"
proof -
  obtain n :: nat where "(ts - t) / KEEPALIVE_INTERVAL \<le> of_nat n"
    using real_arch_simple by blast
  then have "ts \<le> t + KEEPALIVE_INTERVAL * of_nat n"
    by (simp add: KEEPALIVE_INTERVAL_def field_simps)
  from keepalive_loop_ends [OF this] show ?thesis by blast
qed

text \<open>
  Claim C7. Whatever the number of iterations followed, the time at which the flag is set
  and the state of the connection: every message the loop sends is a liveness message, sent
  at a time when the stop flag is not set, and any two of its messages are at least one
  interval of 7 apart, the first one an interval after the loop started.
\<close>

theorem liveness_messages_spaced_until_stop:
  "(\<forall>p \<in> set (fst (keepalive_loop fuel stop conn t)).
      snd p = KeepAlive \<and> \<not> is_set_at stop (fst p) \<and> t + KEEPALIVE_INTERVAL \<le> fst p) \<and>
   sorted_wrt (\<lambda>a b. a + KEEPALIVE_INTERVAL \<le> b) (map fst (fst (keepalive_loop fuel stop conn t))) \<and>
   KEEPALIVE_INTERVAL = 7"
  using keepalive_loop_after_interval [of _ fuel stop conn t] keepalive_loop_spaced [of fuel stop conn t]
  by (auto simp: KEEPALIVE_INTERVAL_def)

theorem liveness_messages_spaced_until_stop_witness:
  "fst (keepalive_loop 5 (Some 20) (\<lambda>t. True) 0) = [(7, KeepAlive), (14, KeepAlive)] \<and>
   snd (keepalive_loop 5 (Some 20) (\<lambda>t. True) 0) \<and>
   \<not> is_set_at (Some 20) 14 \<and> is_set_at (Some 20) 20 \<and>
   sorted_wrt (\<lambda>a b. a + KEEPALIVE_INTERVAL \<le> b) (map fst (fst (keepalive_loop 5 (Some 20) (\<lambda>t. True) 0)))"
  using liveness_messages_spaced_until_stop [of 5 "Some 20" "\<lambda>t. True" 0]
  by (simp add: eval_nat_numeral is_set_at_def event_wait_def KEEPALIVE_INTERVAL_def Let_def)

section \<open>Fatal error codes\<close>

text \<open>
  Claim C2, as amended. In the test script an error event sets the stop flag and the
  completion signal exactly when its code is one of the two fatal codes, and leaves them as
  they were otherwise; a liveness loop whose stop flag is set at some time ends. The demo has
  no fatal codes: an error event leaves its stop flag and its completion signal as they
  were.
\<close>

theorem fatal_error_flags:
  "dict_get event ''type'' (JStr '''') = JStr ''Error'' \<Longrightarrow>
   code = dict_get event ''code'' (JStr '''') \<Longrightarrow>
   s1 = state_of (scen_on_message ts wr (Str (Some (JObj event))) ss) \<Longrightarrow>
   d1 = state_of (demo_on_message ts uid wr (Str (Some (JObj event))) sd) \<Longrightarrow>
   scen_on_message ts wr (Str (Some (JObj event))) ss = Returned s1 \<and>
   keepalive_stop s1 =
     (code \<in> set [JStr ''INVALID_SETTINGS'', JStr ''UNPARSABLE_CLIENT_MESSAGE''] \<or> keepalive_stop ss) \<and>
   done_event s1 =
     (code \<in> set [JStr ''INVALID_SETTINGS'', JStr ''UNPARSABLE_CLIENT_MESSAGE''] \<or> done_event ss) \<and>
   (\<exists>fuel. snd (keepalive_loop fuel (Some t_stop) conn t)) \<and>
   keepalive_stop d1 = keepalive_stop sd \<and> done_event d1 = done_event sd"
  using keepalive_loop_stops [of t_stop conn t] by (auto simp add: Let_def)

theorem fatal_error_flags_witness:
  "dict_get [(''type'', JStr ''Error''), (''description'', JStr ''rejected''),
             (''code'', JStr ''INVALID_SETTINGS'')] ''type'' (JStr '''') = JStr ''Error'' \<and>
   keepalive_stop (state_of (scen_on_message ''t'' True
      (Str (Some (JObj [(''type'', JStr ''Error''), (''description'', JStr ''rejected''),
                        (''code'', JStr ''INVALID_SETTINGS'')])))
      (ws_connect (scen_init ''T1'' (Some []))))) \<and>
   done_event (state_of (scen_on_message ''t'' True
      (Str (Some (JObj [(''type'', JStr ''Error''), (''description'', JStr ''rejected''),
                        (''code'', JStr ''INVALID_SETTINGS'')])))
      (ws_connect (scen_init ''T1'' (Some [])))))"
  using fatal_error_flags
    [of "[(''type'', JStr ''Error''), (''description'', JStr ''rejected''),
          (''code'', JStr ''INVALID_SETTINGS'')]"
        "JStr ''INVALID_SETTINGS''"
        "state_of (scen_on_message ''t'' True
           (Str (Some (JObj [(''type'', JStr ''Error''), (''description'', JStr ''rejected''),
                             (''code'', JStr ''INVALID_SETTINGS'')])))
           (ws_connect (scen_init ''T1'' (Some []))))"
        "''t''" "True" "ws_connect (scen_init ''T1'' (Some []))"
        "state_of (demo_on_message ''t'' ''u'' True
           (Str (Some (JObj [(''type'', JStr ''Error''), (''description'', JStr ''rejected''),
                             (''code'', JStr ''INVALID_SETTINGS'')])))
           (ws_connect (demo_init None)))"
        "''u''" "ws_connect (demo_init None)" 0 "\<lambda>t. True" 0]
  by (simp add: dict_get_def scen_init_def ws_connect_def)

text \<open>
  The claim as first stated fails in the demo: after an error event with a fatal code
  neither the stop flag nor the completion signal is set.
\<close>

theorem fatal_error_flags_counterexample:
  "\<not> keepalive_stop (state_of (demo_on_message ''t'' ''u'' True
        (error_event ''INVALID_SETTINGS'' ''rejected'') (ws_connect (demo_init (Some []))))) \<and>
   \<not> done_event (state_of (demo_on_message ''t'' ''u'' True
        (error_event ''INVALID_SETTINGS'' ''rejected'') (ws_connect (demo_init (Some [])))))"
  by (simp add: error_event_def dict_get_def demo_init_def ws_connect_def Let_def)

section \<open>Scripted turn delivery\<close>

lemma send_scripted_turns_loop_open:
  "ws_open s \<Longrightarrow>
   \<exists>s'. send_scripted_turns_loop i ts s = Returned s' \<and> ws_open s' \<and>
     outbox s' = outbox s @
       map (\<lambda>k. (clock s + (if i = 0 then 4 else 6) + 6 * of_nat k,
                  InjectUserMessage (snd (ts ! k)))) [0..<length ts] \<and>
     conversation s' = conversation s @
       map (\<lambda>p. \<lparr>role = JStr ''user'', label = Some (fst p), content = JStr (snd p)\<rparr>) ts"
proof (induction ts arbitrary: i s)
  case Nil
  then show ?case by simp
next
  case (Cons p rest)
  obtain lbl msg where p: "p = (lbl, msg)" by (cases p)
  define s3 where "s3 = s\<lparr>clock := clock s + (if i = 0 then 4 else 6),
      console := console s @ [ShowYou lbl msg],
      outbox := outbox s @ [(clock s + (if i = 0 then 4 else 6), InjectUserMessage msg)],
      conversation := conversation s @
        [\<lparr>role = JStr ''user'', label = Some lbl, content = JStr msg\<rparr>]\<rparr>"
  have step: "send_scripted_turns_loop i (p # rest) s = send_scripted_turns_loop (i + 1) rest s3"
    using Cons.prems by (simp add: p s3_def ws_send_def sleep_def Let_def)
  have "ws_open s3" using Cons.prems by (simp add: s3_def)
  from Cons.IH [OF this, of "i + 1"] obtain s' where
    r: "send_scripted_turns_loop (i + 1) rest s3 = Returned s'" "ws_open s'"
       "outbox s' = outbox s3 @
          map (\<lambda>k. (clock s3 + 6 + 6 * of_nat k, InjectUserMessage (snd (rest ! k))))
            [0..<length rest]"
       "conversation s' = conversation s3 @
          map (\<lambda>p. \<lparr>role = JStr ''user'', label = Some (fst p), content = JStr (snd p)\<rparr>) rest"
    by auto
  have "outbox s' = outbox s @
       map (\<lambda>k. (clock s + (if i = 0 then 4 else 6) + 6 * of_nat k,
                  InjectUserMessage (snd ((p # rest) ! k)))) [0..<length (p # rest)]"
    using r(3) by (simp add: s3_def p map_upt_Suc algebra_simps del: upt_Suc)
  moreover have "conversation s' = conversation s @
       map (\<lambda>p. \<lparr>role = JStr ''user'', label = Some (fst p), content = JStr (snd p)\<rparr>) (p # rest)"
    using r(4) by (simp add: s3_def p)
  ultimately show ?case using step r(1,2) by simp
qed

lemma send_turns_loop_open:
  "ws_open s \<Longrightarrow>
   \<exists>s'. send_turns_loop n i ts s = Returned s' \<and> ws_open s' \<and>
     outbox s' = outbox s @
       map (\<lambda>k. (clock s + (if i = 0 then 3 else 6) + 6 * of_nat k,
                  InjectUserMessage (snd (ts ! k)))) [0..<length ts] \<and>
     conversation s' = conversation s @
       map (\<lambda>p. \<lparr>role = JStr ''user'', label = Some (fst p), content = JStr (snd p)\<rparr>) ts"
proof (induction ts arbitrary: i s)
  case Nil
  then show ?case by simp
next
  case (Cons p rest)
  obtain lbl msg where p: "p = (lbl, msg)" by (cases p)
  define s3 where "s3 = s\<lparr>clock := clock s + (if i = 0 then 3 else 6),
      console := console s @ [ShowTurn (i + 1) n lbl (take 70 msg)],
      outbox := outbox s @ [(clock s + (if i = 0 then 3 else 6), InjectUserMessage msg)],
      conversation := conversation s @
        [\<lparr>role = JStr ''user'', label = Some lbl, content = JStr msg\<rparr>]\<rparr>"
  have step: "send_turns_loop n i (p # rest) s = send_turns_loop n (i + 1) rest s3"
    using Cons.prems by (simp add: p s3_def ws_send_def sleep_def Let_def)
  have "ws_open s3" using Cons.prems by (simp add: s3_def)
  from Cons.IH [OF this, of "i + 1"] obtain s' where
    r: "send_turns_loop n (i + 1) rest s3 = Returned s'" "ws_open s'"
       "outbox s' = outbox s3 @
          map (\<lambda>k. (clock s3 + 6 + 6 * of_nat k, InjectUserMessage (snd (rest ! k))))
            [0..<length rest]"
       "conversation s' = conversation s3 @
          map (\<lambda>p. \<lparr>role = JStr ''user'', label = Some (fst p), content = JStr (snd p)\<rparr>) rest"
    by auto
  have "outbox s' = outbox s @
       map (\<lambda>k. (clock s + (if i = 0 then 3 else 6) + 6 * of_nat k,
                  InjectUserMessage (snd ((p # rest) ! k)))) [0..<length (p # rest)]"
    using r(3) by (simp add: s3_def p map_upt_Suc algebra_simps del: upt_Suc)
  moreover have "conversation s' = conversation s @
       map (\<lambda>p. \<lparr>role = JStr ''user'', label = Some (fst p), content = JStr (snd p)\<rparr>) (p # rest)"
    using r(4) by (simp add: s3_def p)
  ultimately show ?case using step r(1,2) by simp
qed

text \<open>
  Claim C4. On a connection that is open, scripted delivery returns, and what it has
  transmitted is one user message per configured turn, in the configured order: the first
  one 4 seconds (demo) or 3 seconds (test script) after the start, each further one 6 seconds
  after the one before it.
\<close>

theorem scripted_turns_in_order:
  "(turns sd = Some ts \<and> ws_open sd \<longrightarrow>
      (\<exists>s'. send_scripted_turns sd = Returned s' \<and>
         outbox s' = outbox sd @
           map (\<lambda>k. (clock sd + 4 + 6 * of_nat k, InjectUserMessage (snd (ts ! k))))
             [0..<length ts])) \<and>
   (turns ss = Some ts \<and> ws_open ss \<longrightarrow>
      (\<exists>s'. send_turns ss = Returned s' \<and>
         outbox s' = outbox ss @
           map (\<lambda>k. (clock ss + 3 + 6 * of_nat k, InjectUserMessage (snd (ts ! k))))
             [0..<length ts]))"
proof (intro conjI impI)
  assume a: "turns sd = Some ts \<and> ws_open sd"
  then obtain s1 where
    "send_scripted_turns_loop 0 ts sd = Returned s1"
    "outbox s1 = outbox sd @
       map (\<lambda>k. (clock sd + 4 + 6 * of_nat k, InjectUserMessage (snd (ts ! k)))) [0..<length ts]"
    using send_scripted_turns_loop_open [of sd 0 ts] by auto
  with a show "\<exists>s'. send_scripted_turns sd = Returned s' \<and>
         outbox s' = outbox sd @
           map (\<lambda>k. (clock sd + 4 + 6 * of_nat k, InjectUserMessage (snd (ts ! k))))
             [0..<length ts]"
    by (simp add: send_scripted_turns_def ws_close_def sleep_def)
next
  assume a: "turns ss = Some ts \<and> ws_open ss"
  then obtain s1 where
    "send_turns_loop (length ts) 0 ts ss = Returned s1"
    "outbox s1 = outbox ss @
       map (\<lambda>k. (clock ss + 3 + 6 * of_nat k, InjectUserMessage (snd (ts ! k)))) [0..<length ts]"
    using send_turns_loop_open [of ss "length ts" 0 ts] by auto
  with a show "\<exists>s'. send_turns ss = Returned s' \<and>
         outbox s' = outbox ss @
           map (\<lambda>k. (clock ss + 3 + 6 * of_nat k, InjectUserMessage (snd (ts ! k))))
             [0..<length ts]"
    by (simp add: send_turns_def ws_close_def sleep_def)
qed

theorem scripted_turns_in_order_witness:
  "turns (ws_connect (demo_init (Some [(''English'', ''Hello''), (''Spanish'', ''Hola'')]))) =
     Some [(''English'', ''Hello''), (''Spanish'', ''Hola'')] \<and>
   ws_open (ws_connect (demo_init (Some [(''English'', ''Hello''), (''Spanish'', ''Hola'')]))) \<and>
   outbox (state_of (send_scripted_turns
     (ws_connect (demo_init (Some [(''English'', ''Hello''), (''Spanish'', ''Hola'')]))))) =
     [(4, InjectUserMessage ''Hello''), (10, InjectUserMessage ''Hola'')] \<and>
   turns (ws_connect (scen_init ''T1'' (Some [(''English'', ''Hello''), (''Spanish'', ''Hola'')]))) =
     Some [(''English'', ''Hello''), (''Spanish'', ''Hola'')] \<and>
   ws_open (ws_connect (scen_init ''T1'' (Some [(''English'', ''Hello''), (''Spanish'', ''Hola'')]))) \<and>
   outbox (state_of (send_turns
     (ws_connect (scen_init ''T1'' (Some [(''English'', ''Hello''), (''Spanish'', ''Hola'')]))))) =
     [(3, InjectUserMessage ''Hello''), (9, InjectUserMessage ''Hola'')]"
  using scripted_turns_in_order
    [of "ws_connect (demo_init (Some [(''English'', ''Hello''), (''Spanish'', ''Hola'')]))"
        "[(''English'', ''Hello''), (''Spanish'', ''Hola'')]"
        "ws_connect (scen_init ''T1'' (Some [(''English'', ''Hello''), (''Spanish'', ''Hola'')]))"]
  by (simp add: demo_init_def scen_init_def ws_connect_def send_scripted_turns_def send_turns_def
      ws_send_def ws_close_def sleep_def Let_def)


section \<open>Interactive turn delivery\<close>

lemma interactive_loop_stop_line:
  "py_strip raw = [] \<or> py_lower (py_strip raw) \<in> set [''quit'', ''exit'', ''q''] \<Longrightarrow>
   send_interactive_turns_loop (Line raw # rest) s =
     (if done_event s then Some (Returned s)
      else if \<not> ready_for_input s then None
      else Some (Returned (s\<lparr>ready_for_input := False, console := console s @ [ShowPrompt]\<rparr>)))"
  by (auto simp: Let_def)

text \<open>
  Claim C9. A line that is empty once stripped and a line that is one of the quit words in
  any letter case end interactive delivery in the same way, whatever lines follow: the
  loop leaves at that line, and the activity returns with nothing transmitted and nothing
  added to the transcript, the stop flag set and the connection closed.
\<close>

theorem blank_line_ends_like_quit:
  "py_strip blank = [] \<Longrightarrow>
   py_lower (py_strip quit) \<in> set [''quit'', ''exit'', ''q''] \<Longrightarrow>
   send_interactive_turns_loop (Line blank # rest) s =
     send_interactive_turns_loop (Line quit # rest') s \<and>
   send_interactive_turns (Line blank # rest) s = send_interactive_turns (Line quit # rest') s \<and>
   (\<exists>s'. send_interactive_turns (Line blank # rest) s = Some (Returned s') \<and>
      outbox s' = outbox s \<and> conversation s' = conversation s \<and>
      keepalive_stop s' \<and> \<not> ws_open s')"
proof -
  assume b: "py_strip blank = []" and q: "py_lower (py_strip quit) \<in> set [''quit'', ''exit'', ''q'']"
  have 1: "send_interactive_turns_loop (Line blank # rest) t =
           send_interactive_turns_loop (Line quit # rest') t" for t
    using interactive_loop_stop_line [of blank rest t] interactive_loop_stop_line [of quit rest' t] b q
    by simp
  have 2: "send_interactive_turns (Line blank # rest) s = send_interactive_turns (Line quit # rest') s"
    unfolding send_interactive_turns_def Let_def by (simp only: 1)
  have 3: "\<exists>s'. send_interactive_turns (Line blank # rest) s = Some (Returned s') \<and>
      outbox s' = outbox s \<and> conversation s' = conversation s \<and>
      keepalive_stop s' \<and> \<not> ws_open s'"
    unfolding send_interactive_turns_def Let_def
    using interactive_loop_stop_line [of blank rest] b
    by (simp add: ws_close_def)
  from 1 2 3 show ?thesis by blast
qed

lemma strip_blank_example: "py_strip ''   '' = []"
  by code_simp

lemma lower_quit_example: "py_lower (py_strip '' QuIt '') = ''quit''"
  by code_simp

theorem blank_line_ends_like_quit_witness:
  "py_strip ''   '' = [] \<and>
   py_lower (py_strip '' QuIt '') \<in> set [''quit'', ''exit'', ''q''] \<and>
   send_interactive_turns [Line ''   '', Line ''hello''] (ws_connect (demo_init None)) =
     send_interactive_turns [Line '' QuIt ''] (ws_connect (demo_init None)) \<and>
   send_interactive_turns [Line ''   '', Line ''hello''] (ws_connect (demo_init None)) =
     Some (Returned ((demo_init None)\<lparr>keepalive_stop := True, console := [ShowBanner, ShowPrompt]\<rparr>))"
  using blank_line_ends_like_quit [of "''   ''" "'' QuIt ''" "[Line ''hello'']" "ws_connect (demo_init None)" "[]"]
  by (simp add: strip_blank_example lower_quit_example send_interactive_turns_def
      demo_init_def ws_connect_def ws_close_def Let_def)

section \<open>Turns after a fatal error\<close>

lemma send_turns_loop_closed:
  "\<not> ws_open s \<Longrightarrow> outbox (state_of (send_turns_loop n i rest s)) = outbox s"
proof (cases rest)
  case Nil
  then show ?thesis by simp
next
  case (Cons p rest')
  assume "\<not> ws_open s"
  then show ?thesis by (cases p) (simp add: Cons ws_send_def sleep_def Let_def)
qed

lemma send_scripted_turns_loop_closed:
  "\<not> ws_open s \<Longrightarrow> outbox (state_of (send_scripted_turns_loop i rest s)) = outbox s"
proof (cases rest)
  case Nil
  then show ?thesis by simp
next
  case (Cons p rest')
  assume "\<not> ws_open s"
  then show ?thesis by (cases p) (simp add: Cons ws_send_def sleep_def Let_def)
qed

lemma send_turns_closed:
  "\<not> ws_open s \<Longrightarrow> outbox (state_of (send_turns s)) = outbox s"
proof (cases "turns s")
  case None
  then show ?thesis by (simp add: send_turns_def)
next
  case (Some ts)
  assume c: "\<not> ws_open s"
  show ?thesis
  proof (cases "send_turns_loop (length ts) 0 ts s")
    case (Returned s1)
    with send_turns_loop_closed [OF c, of "length ts" 0 ts] Some show ?thesis
      by (simp add: send_turns_def ws_close_def sleep_def)
  next
    case (Raised e s1)
    with send_turns_loop_closed [OF c, of "length ts" 0 ts] Some show ?thesis
      by (simp add: send_turns_def)
  qed
qed

lemma scripted_loop_cong:
  "ws_open s = ws_open s' \<Longrightarrow> clock s = clock s' \<Longrightarrow> outbox s = outbox s' \<Longrightarrow>
   outbox (state_of (send_scripted_turns_loop i rest s)) =
   outbox (state_of (send_scripted_turns_loop i rest s'))"
proof (induction rest arbitrary: i s s')
  case Nil
  then show ?case by simp
next
  case (Cons p rest)
  obtain lbl msg where p: "p = (lbl, msg)" by (cases p)
  show ?case
  proof (cases "ws_open s")
    case False
    with Cons.prems show ?thesis
      using send_scripted_turns_loop_closed [of s i "p # rest"]
        send_scripted_turns_loop_closed [of s' i "p # rest"] by simp
  next
    case True
    with Cons.prems have o': "ws_open s'" by simp
    let ?u = "\<lambda>s::demo. s\<lparr>clock := clock s + (if i = 0 then 4 else 6),
      console := console s @ [ShowYou lbl msg],
      outbox := outbox s @ [(clock s + (if i = 0 then 4 else 6), InjectUserMessage msg)],
      conversation := conversation s @
        [\<lparr>role = JStr ''user'', label = Some lbl, content = JStr msg\<rparr>]\<rparr>"
    have a: "send_scripted_turns_loop i (p # rest) s = send_scripted_turns_loop (i + 1) rest (?u s)"
      using True by (simp add: p ws_send_def sleep_def Let_def)
    have b: "send_scripted_turns_loop i (p # rest) s' = send_scripted_turns_loop (i + 1) rest (?u s')"
      using o' by (simp add: p ws_send_def sleep_def Let_def)
    have "outbox (state_of (send_scripted_turns_loop (i + 1) rest (?u s))) =
          outbox (state_of (send_scripted_turns_loop (i + 1) rest (?u s')))"
      by (rule Cons.IH) (use Cons.prems in simp_all)
    with a b show ?thesis by simp
  qed
qed

text \<open>
  Claim C1, as amended. In the test script an error event with a fatal code sets the
  completion signal; \<open>run\<close>, which waits for it, then closes the connection, and from then on
  no user turn is transmitted, wherever turn delivery stands in its loop: its next \<open>send\<close>
  raises. Turn delivery itself never looks at the errors received, and in the demo no code is
  fatal: there an error event changes nothing of what delivery transmits.
\<close>

theorem fatal_error_then_close_stops_turns:
  "dict_get event ''type'' (JStr '''') = JStr ''Error'' \<Longrightarrow>
   dict_get event ''code'' (JStr '''') \<in>
     set [JStr ''INVALID_SETTINGS'', JStr ''UNPARSABLE_CLIENT_MESSAGE''] \<Longrightarrow>
   s1 = state_of (scen_on_message ts wr (Str (Some (JObj event))) ss) \<Longrightarrow>
   d1 = state_of (demo_on_message ts uid wr (Str (Some (JObj event))) sd) \<Longrightarrow>
   scen_on_message ts wr (Str (Some (JObj event))) ss = Returned s1 \<and>
   done_event s1 \<and>
   \<not> ws_open (run_after_wait s1) \<and>
   user_turns_sent (run_after_wait s1) = user_turns_sent ss \<and>
   (\<forall>n i rest. user_turns_sent (state_of (send_turns_loop n i rest (run_after_wait s1))) =
                user_turns_sent ss) \<and>
   user_turns_sent (state_of (send_turns (run_after_wait s1))) = user_turns_sent ss \<and>
   (\<forall>i rest. user_turns_sent (state_of (send_scripted_turns_loop i rest d1)) =
              user_turns_sent (state_of (send_scripted_turns_loop i rest sd)))"
proof -
  assume e: "dict_get event ''type'' (JStr '''') = JStr ''Error''"
    and f: "dict_get event ''code'' (JStr '''') \<in>
       set [JStr ''INVALID_SETTINGS'', JStr ''UNPARSABLE_CLIENT_MESSAGE'']"
    and s1: "s1 = state_of (scen_on_message ts wr (Str (Some (JObj event))) ss)"
    and d1: "d1 = state_of (demo_on_message ts uid wr (Str (Some (JObj event))) sd)"
  have r: "scen_on_message ts wr (Str (Some (JObj event))) ss = Returned s1"
    using e f by (auto simp: s1 Let_def)
  have dn: "done_event s1" and ob: "outbox s1 = outbox ss"
    using e f by (auto simp: s1 Let_def)
  have cl: "\<not> ws_open (run_after_wait s1)"
    by (simp add: run_after_wait_def ws_close_def)
  have ob2: "outbox (run_after_wait s1) = outbox ss"
    using ob by (simp add: run_after_wait_def ws_close_def)
  have dd: "ws_open d1 = ws_open sd" "clock d1 = clock sd" "outbox d1 = outbox sd"
    using e by (auto simp: d1 Let_def)
  have demo: "outbox (state_of (send_scripted_turns_loop i rest d1)) =
              outbox (state_of (send_scripted_turns_loop i rest sd))" for i rest
    using dd by (rule scripted_loop_cong)
  show ?thesis
    using r dn cl ob2 send_turns_loop_closed [OF cl] send_turns_closed [OF cl] demo
    by (simp add: user_turns_sent_def)
qed

theorem fatal_error_then_close_stops_turns_witness:
  "dict_get [(''type'', JStr ''Error''), (''description'', JStr ''bad frame''),
             (''code'', JStr ''UNPARSABLE_CLIENT_MESSAGE'')] ''type'' (JStr '''') = JStr ''Error'' \<and>
   dict_get [(''type'', JStr ''Error''), (''description'', JStr ''bad frame''),
             (''code'', JStr ''UNPARSABLE_CLIENT_MESSAGE'')] ''code'' (JStr '''') \<in>
     set [JStr ''INVALID_SETTINGS'', JStr ''UNPARSABLE_CLIENT_MESSAGE''] \<and>
   done_event (state_of (scen_on_message ''t'' True
      (Str (Some (JObj [(''type'', JStr ''Error''), (''description'', JStr ''bad frame''),
                        (''code'', JStr ''UNPARSABLE_CLIENT_MESSAGE'')])))
      (ws_connect (scen_init ''T1'' (Some [(''English'', ''Hello'')]))))) \<and>
   user_turns_sent (state_of (send_turns (run_after_wait (state_of (scen_on_message ''t'' True
      (Str (Some (JObj [(''type'', JStr ''Error''), (''description'', JStr ''bad frame''),
                        (''code'', JStr ''UNPARSABLE_CLIENT_MESSAGE'')])))
      (ws_connect (scen_init ''T1'' (Some [(''English'', ''Hello'')])))))))) = []"
  using fatal_error_then_close_stops_turns
    [of "[(''type'', JStr ''Error''), (''description'', JStr ''bad frame''),
          (''code'', JStr ''UNPARSABLE_CLIENT_MESSAGE'')]"
        "state_of (scen_on_message ''t'' True
           (Str (Some (JObj [(''type'', JStr ''Error''), (''description'', JStr ''bad frame''),
                             (''code'', JStr ''UNPARSABLE_CLIENT_MESSAGE'')])))
           (ws_connect (scen_init ''T1'' (Some [(''English'', ''Hello'')]))))"
        "''t''" "True" "ws_connect (scen_init ''T1'' (Some [(''English'', ''Hello'')]))"
        "state_of (demo_on_message ''t'' ''u'' True
           (Str (Some (JObj [(''type'', JStr ''Error''), (''description'', JStr ''bad frame''),
                             (''code'', JStr ''UNPARSABLE_CLIENT_MESSAGE'')])))
           (ws_connect (demo_init None)))"
        "''u''" "ws_connect (demo_init None)"]
  by (simp add: dict_get_def scen_init_def ws_connect_def user_turns_sent_def)

text \<open>
  The claim as first stated fails in the demo: the configuration is acknowledged, an error
  event with a fatal code is received and recorded, and turn delivery then transmits its
  turn.
\<close>

theorem fatal_error_then_close_stops_turns_counterexample:
  "errors (state_of (demo_on_message ''t'' ''u'' True (error_event ''UNPARSABLE_CLIENT_MESSAGE'' ''bad frame'')
      (state_of (demo_on_message ''t'' ''u'' True settings_applied_event
         (ws_connect (demo_init (Some [(''English'', ''Hello'')]))))))) =
     [(JStr ''UNPARSABLE_CLIENT_MESSAGE'', JStr ''bad frame'')] \<and>
   user_turns_sent (state_of (demo_on_message ''t'' ''u'' True (error_event ''UNPARSABLE_CLIENT_MESSAGE'' ''bad frame'')
      (state_of (demo_on_message ''t'' ''u'' True settings_applied_event
         (ws_connect (demo_init (Some [(''English'', ''Hello'')]))))))) = [] \<and>
   user_turns_sent (state_of (send_scripted_turns
      (state_of (demo_on_message ''t'' ''u'' True (error_event ''UNPARSABLE_CLIENT_MESSAGE'' ''bad frame'')
        (state_of (demo_on_message ''t'' ''u'' True settings_applied_event
           (ws_connect (demo_init (Some [(''English'', ''Hello'')]))))))))) =
     [(4, InjectUserMessage ''Hello'')]"
  by (simp add: error_event_def settings_applied_event_def dict_get_def demo_init_def
      ws_connect_def send_scripted_turns_def ws_send_def ws_close_def sleep_def
      user_turns_sent_def Let_def)

end
